theory Spec2Isabelle
  imports Main "HOL-Library.AList"
begin

section \<open>Python values, exceptions and the environment\<close>

text \<open>
  The tus router of \<^verbatim>\<open>tuspyserver\<close> (router.py, request.py, file.py, params.py).
  A handler either returns a reply or is left by an exception; both are values here,
  \<open>Inl\<close> the exception. \<open>HTTPException n\<close> is \<^verbatim>\<open>raise HTTPException(status_code=n)\<close>;
  the other constructors are the built-in exceptions Python raises itself: a call that
  does not fit the callee's signature (\<open>TypeError\<close>), an attribute an object does not
  have (\<open>AttributeError\<close>), a key a dict does not hold (\<open>KeyError\<close>), a name that is
  bound nowhere (\<open>NameError\<close>). An exception other than \<open>HTTPException\<close> that leaves a
  handler is answered by the framework with status 500.
\<close>

datatype error =
    HTTPException nat
  | TypeError
  | AttributeError
  | KeyError
  | NameError
  | ValueError
  | ValidationError
  | FileNotFoundError

type_synonym bytes = string

text \<open>
  What a handler takes from outside the repository: the clock (\<^verbatim>\<open>datetime.now()\<close>, in
  seconds), \<^verbatim>\<open>uuid4().hex\<close>, the text of an instant (\<^verbatim>\<open>isoformat()\<close>) and base64.
\<close>

record env =
  now :: int
  uuid4_hex :: string
  isoformat :: "int \<Rightarrow> string"
  b64encode :: "string \<Rightarrow> string"
  b64decode :: "string \<Rightarrow> string option"

text \<open>\<^verbatim>\<open>str(n)\<close> for an integer.\<close>

fun str_nat :: "nat \<Rightarrow> string" where
  "str_nat n =
     (if n < 10 then [''0123456789'' ! n]
      else str_nat (n div 10) @ [''0123456789'' ! (n mod 10)])"

declare str_nat.simps [simp del]

definition str_int :: "int \<Rightarrow> string" where
  "str_int i = (if i < 0 then CHR ''-'' # str_nat (nat (- i)) else str_nat (nat i))"

text \<open>\<^verbatim>\<open>os.path.join(a, b)\<close> for two components.\<close>

definition path_join :: "string \<Rightarrow> string \<Rightarrow> string" where
  "path_join a b =
     (case b of
        c # cs \<Rightarrow>
          if c = CHR ''/'' then b
          else if a = [] then b
          else if last a = CHR ''/'' then a @ b
          else a @ ''/'' @ b
      | [] \<Rightarrow> if a = [] then [] else if last a = CHR ''/'' then a else a @ ''/'')"

section \<open>params.py: the upload record\<close>

text \<open>
  \<^verbatim>\<open>class TusUploadParams(BaseModel)\<close>. The field \<^verbatim>\<open>size\<close> is \<open>size_bytes\<close> here
  (\<open>size\<close> is a constant of HOL). \<^verbatim>\<open>created_at\<close> and \<^verbatim>\<open>expires\<close> hold the text of an
  instant; the record keeps the instant itself, \<open>None\<close> for Python's \<^verbatim>\<open>None\<close>. The
  class declares these eight fields and no other attribute.
\<close>

record TusUploadParams =
  metadata :: "(string \<times> string) list"
  size_bytes :: int
  offset :: int
  upload_part :: int
  created_at :: int
  defer_length :: bool
  upload_chunk_size :: int
  expires :: "int option"

section \<open>router.py: the options of a router\<close>

text \<open>
  A completion hook is a callable of the host application; calling it is recorded in the
  world below. \<open>Noop\<close> is the router's own \<^verbatim>\<open>lambda *_: None\<close>.
\<close>

datatype callback = Callback string | Noop

text \<open>
  \<^verbatim>\<open>class TusRouterOptions(BaseModel)\<close>. \<open>auth\<close> is what running the configured guard
  does: \<open>None\<close> when it returns, \<open>Some e\<close> when it raises \<open>e\<close>. \<open>upload_complete_dep\<close> is
  the callable that the dependency yields for a request.
\<close>

record TusRouterOptions =
  prefix :: string
  files_dir :: string
  max_size :: int
  auth :: "error option"
  days_to_keep :: int
  on_upload_complete :: "callback option"
  upload_complete_dep :: callback
  tags :: "string list option"
  tus_version :: string
  tus_extension :: string

fun join_str :: "string \<Rightarrow> string list \<Rightarrow> string" where
  "join_str sep [] = []"
| "join_str sep [x] = x"
| "join_str sep (x # y # ys) = x @ sep @ join_str sep (y # ys)"

definition create_tus_router ::
  "string \<Rightarrow> string \<Rightarrow> int \<Rightarrow> error option \<Rightarrow> int \<Rightarrow> callback option \<Rightarrow>
   callback option \<Rightarrow> string list option \<Rightarrow> TusRouterOptions" where
  "create_tus_router prefix0 files_dir0 max_size0 auth0 days_to_keep0 on_upload_complete0
     upload_complete_dep0 tags0 =
     \<lparr> prefix = (case prefix0 of c # cs \<Rightarrow> if c = CHR ''/'' then cs else prefix0 | [] \<Rightarrow> prefix0),
       files_dir = files_dir0,
       max_size = max_size0,
       auth = auth0,
       days_to_keep = days_to_keep0,
       on_upload_complete = on_upload_complete0,
       upload_complete_dep =
         (case upload_complete_dep0 of
            Some d \<Rightarrow> d
          | None \<Rightarrow> (case on_upload_complete0 of Some h \<Rightarrow> h | None \<Rightarrow> Noop)),
       tags = tags0,
       tus_version = ''1.0.0'',
       tus_extension =
         join_str '',''
           [''creation'', ''creation-defer-length'', ''creation-with-upload'',
            ''expiration'', ''termination''] \<rparr>"

section \<open>The files directory\<close>

text \<open>
  The state a request runs in: the entries of \<^verbatim>\<open>files_dir\<close> and the calls made to
  completion hooks so far. \<open>payloads\<close> maps the name of an entry to its bytes;
  \<open>sidecars\<close> maps an upload id \<open>u\<close> to the record that the entry \<^verbatim>\<open>u.info\<close> holds. A
  hook call is recorded with the hook's label, the path and the metadata it was given.
\<close>

record world =
  payloads :: "(string \<times> bytes) list"
  sidecars :: "(string \<times> TusUploadParams) list"
  hook_calls :: "(string \<times> string \<times> (string \<times> string) list) list"

text \<open>\<^verbatim>\<open>os.listdir(files_dir)\<close>.\<close>

definition listdir :: "world \<Rightarrow> string list" where
  "listdir w = map fst (payloads w) @ map (\<lambda>e. fst e @ ''.info'') (sidecars w)"

definition call_hook :: "callback \<Rightarrow> string \<Rightarrow> (string \<times> string) list \<Rightarrow> world \<Rightarrow> world" where
  "call_hook cb path md w =
     (case cb of
        Noop \<Rightarrow> w
      | Callback l \<Rightarrow> w\<lparr>hook_calls := hook_calls w @ [(l, path, md)]\<rparr>)"

section \<open>file.py: the upload file\<close>

record TusUploadFile =
  uid :: string
  file_options :: TusRouterOptions

text \<open>
  Modelled from the spec: the class \<^verbatim>\<open>TusUploadInfo\<close> of the module tuspyserver.info,
  which file.py imports and which is not among the sources. Its \<^verbatim>\<open>params\<close> getter loads
  the sidecar of the file's id: the record, or \<^verbatim>\<open>None\<close> when the sidecar is missing or
  does not parse (section 4.1 \<^verbatim>\<open>load\<close>, section 4.2).
\<close>

definition TusUploadInfo_params :: "string \<Rightarrow> world \<Rightarrow> TusUploadParams option" where
  "TusUploadInfo_params u w = map_of (sidecars w) u"

text \<open>
  Modelled from the spec: the \<^verbatim>\<open>params\<close> setter of \<^verbatim>\<open>TusUploadInfo\<close> (module
  tuspyserver.info, not among the sources): a mutation is persisted at once by replacing
  the sidecar (section 4.1 \<^verbatim>\<open>save\<close>, section 4.2).
\<close>

definition TusUploadInfo_set_params :: "string \<Rightarrow> TusUploadParams \<Rightarrow> world \<Rightarrow> world" where
  "TusUploadInfo_set_params u p w = w\<lparr>sidecars := AList.update u p (sidecars w)\<rparr>"

text \<open>
  Modelled from the spec: the constructor of \<^verbatim>\<open>TusUploadInfo\<close> (module tuspyserver.info,
  not among the sources). Given a record it creates both files, the payload of length
  zero (section 4.1 \<^verbatim>\<open>create\<close>, section 4.3.2 step 5); given none it does nothing, the
  sidecar being loaded on demand.
\<close>

definition TusUploadInfo_init :: "string \<Rightarrow> TusUploadParams option \<Rightarrow> world \<Rightarrow> world" where
  "TusUploadInfo_init u params w =
     (case params of
        None \<Rightarrow> w
      | Some p \<Rightarrow>
          w\<lparr>payloads := (if map_of (payloads w) u = None then payloads w @ [(u, [])] else payloads w),
            sidecars := AList.update u p (sidecars w)\<rparr>)"

text \<open>
  \<^verbatim>\<open>TusUploadFile.__init__(self, uid, options, params=None)\<close>. The first two parameters
  have no default. An argument is \<open>None\<close> when the call does not pass it and \<open>Some v\<close>
  when it passes \<open>v\<close>; a call that leaves out \<^verbatim>\<open>uid\<close> or \<^verbatim>\<open>options\<close> raises \<open>TypeError\<close>
  before the body runs. The value passed for \<^verbatim>\<open>uid\<close> is a string or Python's \<^verbatim>\<open>None\<close>.
  \<^verbatim>\<open>os.makedirs\<close> is left out: the directory is there.
\<close>

definition TusUploadFile_init ::
  "string option option \<Rightarrow> TusRouterOptions option \<Rightarrow> TusUploadParams option \<Rightarrow> env \<Rightarrow>
   world \<Rightarrow> (error + TusUploadFile) \<times> world" where
  "TusUploadFile_init uid_arg options_arg params_arg env w =
     (case uid_arg of
        None \<Rightarrow> (Inl TypeError, w)
      | Some u \<Rightarrow>
          (case options_arg of
             None \<Rightarrow> (Inl TypeError, w)
           | Some opts \<Rightarrow>
               (let self = \<lparr> uid = (case u of
                                      None \<Rightarrow> uuid4_hex env
                                    | Some s \<Rightarrow> if s = [] then uuid4_hex env else s),
                              file_options = opts \<rparr>
                in (Inr self, TusUploadInfo_init (uid self) params_arg w))))"

text \<open>
  The properties \<^verbatim>\<open>path\<close>, \<^verbatim>\<open>info\<close> (getter and setter) and \<^verbatim>\<open>exists\<close>. The getter
  of \<^verbatim>\<open>info\<close> returns \<^verbatim>\<open>self._info.params\<close> and the setter assigns to it. HEAD, GET and
  OPTIONS read the record as \<^verbatim>\<open>file.info\<close>; PATCH, POST, the streaming step and the
  sweeper use \<^verbatim>\<open>file.params\<close>, a name that the class in file.py does not declare and
  that is the accessor's name in \<^verbatim>\<open>TusUploadInfo\<close>, which receives the file object. Here
  \<^verbatim>\<open>file.params\<close> is read as that accessor: the same record as \<^verbatim>\<open>file.info\<close>, saved when
  assigned. Whether a method call fits its signature is decided in file.py itself and is
  modelled as Python decides it.
\<close>

definition TusUploadFile_path :: "TusUploadFile \<Rightarrow> string" where
  "TusUploadFile_path self = path_join (files_dir (file_options self)) (uid self)"

definition TusUploadFile_info :: "TusUploadFile \<Rightarrow> world \<Rightarrow> TusUploadParams option" where
  "TusUploadFile_info self w = TusUploadInfo_params (uid self) w"

definition TusUploadFile_set_info :: "TusUploadFile \<Rightarrow> TusUploadParams \<Rightarrow> world \<Rightarrow> world" where
  "TusUploadFile_set_info self p w = TusUploadInfo_set_params (uid self) p w"

definition TusUploadFile_exists :: "TusUploadFile \<Rightarrow> world \<Rightarrow> bool" where
  "TusUploadFile_exists self w = (map_of (payloads w) (uid self) \<noteq> None)"

text \<open>\<^verbatim>\<open>create\<close> (\<^verbatim>\<open>open(path, "a").close()\<close>) and \<^verbatim>\<open>read\<close>; no handler calls them.\<close>

definition TusUploadFile_create :: "TusUploadFile \<Rightarrow> world \<Rightarrow> world" where
  "TusUploadFile_create self w =
     (if map_of (payloads w) (uid self) = None
      then w\<lparr>payloads := payloads w @ [(uid self, [])]\<rparr> else w)"

definition TusUploadFile_read :: "TusUploadFile \<Rightarrow> world \<Rightarrow> bytes option" where
  "TusUploadFile_read self w = map_of (payloads w) (uid self)"

text \<open>
  \<^verbatim>\<open>def delete(self, uid: str)\<close> and \<^verbatim>\<open>def __len__(self, uid: str)\<close>: each declares
  a second parameter \<^verbatim>\<open>uid\<close> without a default, so a call that passes the file alone
  (\<^verbatim>\<open>file.delete()\<close>, \<^verbatim>\<open>len(file)\<close>) raises \<open>TypeError\<close> before the body runs.
\<close>

definition TusUploadFile_delete ::
  "TusUploadFile \<Rightarrow> string option \<Rightarrow> world \<Rightarrow> (error + unit) \<times> world" where
  "TusUploadFile_delete self uid_arg w =
     (case uid_arg of
        None \<Rightarrow> (Inl TypeError, w)
      | Some u \<Rightarrow>
          (Inr (),
           w\<lparr>payloads := AList.delete u (payloads w),
             sidecars := AList.delete u (sidecars w)\<rparr>))"

definition TusUploadFile_len :: "TusUploadFile \<Rightarrow> string option \<Rightarrow> world \<Rightarrow> error + int" where
  "TusUploadFile_len self uid_arg w =
     (case uid_arg of
        None \<Rightarrow> Inl TypeError
      | Some u \<Rightarrow>
          (case map_of (payloads w) u of
             None \<Rightarrow> Inl FileNotFoundError
           | Some b \<Rightarrow> Inr (int (length b))))"

section \<open>router.py: the handlers\<close>

text \<open>
  A handler's reply: \<open>Response status headers\<close>, or the \<^verbatim>\<open>FileResponse\<close> of the download
  route with its path, media type, file name and headers.
\<close>

datatype reply =
    Response nat "(string \<times> string) list"
  | FileResponse string string string "(string \<times> string) list"

text \<open>\<^verbatim>\<open>Depends(auth)\<close>: the guard runs; when it raises, the handler does not.\<close>

definition Depends_auth :: "TusRouterOptions \<Rightarrow> world \<Rightarrow> (error + unit) \<times> world" where
  "Depends_auth options w = (case auth options of Some e \<Rightarrow> (Inl e, w) | None \<Rightarrow> (Inr (), w))"

text \<open>\<^verbatim>\<open>core_head_route\<close>, the body of the handler (router.py, lines 93 to 130).\<close>

definition core_head_route ::
  "TusRouterOptions \<Rightarrow> env \<Rightarrow> string \<Rightarrow> world \<Rightarrow> (error + reply) \<times> world" where
  "core_head_route options env uuid w =
     (case TusUploadFile_init (Some (Some uuid)) (Some options) None env w of
        (Inl e, w1) \<Rightarrow> (Inl e, w1)
      | (Inr file, w1) \<Rightarrow>
          (if TusUploadFile_exists file w1 then
             (case TusUploadFile_info file w1 of
                None \<Rightarrow> (Inl AttributeError, w1)
              | Some info \<Rightarrow>
                  (let headers =
                     [(''Tus-Resumable'', tus_version (file_options file)),
                      (''Content-Length'', str_int (size_bytes info)),
                      (''Upload-Length'', str_int (size_bytes info)),
                      (''Upload-Offset'', str_int (offset info)),
                      (''Cache-Control'', ''no-store'')]
                   in (case (case map_of (metadata info) ''filename'' of
                               Some v \<Rightarrow> Some v
                             | None \<Rightarrow> map_of (metadata info) ''name'') of
                         None \<Rightarrow> (Inl (HTTPException 400), w1)
                       | Some fn \<Rightarrow>
                           (case (case map_of (metadata info) ''filetype'' of
                                    Some v \<Rightarrow> Some v
                                  | None \<Rightarrow> map_of (metadata info) ''type'') of
                              None \<Rightarrow> (Inl (HTTPException 400), w1)
                            | Some ft \<Rightarrow>
                                (Inr (Response 200
                                   (headers @
                                    [(''Upload-Metadata'',
                                      ''filename '' @ b64encode env fn @ '', filetype '' @
                                      b64encode env ft)])),
                                 w1)))))
           else (Inl (HTTPException 404), w1)))"

text \<open>
  \<^verbatim>\<open>extension_get_upload\<close> (router.py, lines 302 to 319). \<^verbatim>\<open>metadata["name"]\<close> is a
  dict subscript: a missing key raises \<open>KeyError\<close>, while the arguments of
  \<^verbatim>\<open>FileResponse\<close> are evaluated.
\<close>

definition extension_get_upload ::
  "TusRouterOptions \<Rightarrow> env \<Rightarrow> string \<Rightarrow> world \<Rightarrow> (error + reply) \<times> world" where
  "extension_get_upload options env uuid w =
     (case TusUploadFile_init (Some (Some uuid)) (Some options) None env w of
        (Inl e, w1) \<Rightarrow> (Inl e, w1)
      | (Inr file, w1) \<Rightarrow>
          (case TusUploadFile_info file w1 of
             None \<Rightarrow> (Inl (HTTPException 404), w1)
           | Some info \<Rightarrow>
               (if TusUploadFile_exists file w1 then
                  (case map_of (metadata info) ''name'' of
                     None \<Rightarrow> (Inl KeyError, w1)
                   | Some name \<Rightarrow>
                       (Inr (FileResponse (path_join (files_dir options) uuid)
                               ''application/octet-stream'' name
                               [(''Content-Length'', str_int (offset info)),
                                (''Tus-Resumable'', tus_version options)]),
                        w1))
                else (Inl (HTTPException 404), w1))))"

text \<open>
  The routes as the router registers them: the dependencies of the signature, in the
  order of the parameters, then the handler. The download route declares no dependency.
\<close>

definition HEAD_route ::
  "TusRouterOptions \<Rightarrow> env \<Rightarrow> string \<Rightarrow> world \<Rightarrow> (error + reply) \<times> world" where
  "HEAD_route options env uuid w =
     (case Depends_auth options w of
        (Inl e, w1) \<Rightarrow> (Inl e, w1)
      | (Inr u, w1) \<Rightarrow> core_head_route options env uuid w1)"

definition GET_route ::
  "TusRouterOptions \<Rightarrow> env \<Rightarrow> string \<Rightarrow> world \<Rightarrow> (error + reply) \<times> world" where
  "GET_route options env uuid w = extension_get_upload options env uuid w"

section \<open>request.py: the streaming dependency\<close>

text \<open>
  The part of a request the handlers read beside their declared headers: the header
  list, its names in lower case as the server delivers them, and the chunks that
  \<^verbatim>\<open>request.stream()\<close> yields (the framework ends a stream with an empty chunk).
  \<^verbatim>\<open>request.headers.get\<close> ignores the case of the name.
\<close>

record request =
  headers :: "(string \<times> string) list"
  stream :: "bytes list"

definition lower_char :: "char \<Rightarrow> char" where
  "lower_char c =
     (case map_of (zip ''ABCDEFGHIJKLMNOPQRSTUVWXYZ'' ''abcdefghijklmnopqrstuvwxyz'') c of
        Some d \<Rightarrow> d
      | None \<Rightarrow> c)"

definition headers_get :: "request \<Rightarrow> string \<Rightarrow> string option" where
  "headers_get req k = map_of (headers req) (map lower_char k)"




section \<open>router.py: chunk append\<close>






section \<open>router.py: discovery, creation, termination\<close>

text \<open>\<^verbatim>\<open>core_options_route\<close> and \<^verbatim>\<open>options_upload_chunk\<close>.\<close>

definition core_options_route :: "TusRouterOptions \<Rightarrow> world \<Rightarrow> (error + reply) \<times> world" where
  "core_options_route options w =
     (Inr (Response 204
        [(''Tus-Extension'', tus_extension options),
         (''Tus-Resumable'', tus_version options),
         (''Tus-Version'', tus_version options),
         (''Tus-Max-Size'', str_int (max_size options)),
         (''Content-Length'', str_int 0)]), w)"

definition options_upload_chunk ::
  "TusRouterOptions \<Rightarrow> env \<Rightarrow> string \<Rightarrow> world \<Rightarrow> (error + reply) \<times> world" where
  "options_upload_chunk options env uuid w =
     (case TusUploadFile_init (Some (Some uuid)) (Some options) None env w of
        (Inl e, w1) \<Rightarrow> (Inl e, w1)
      | (Inr file, w1) \<Rightarrow>
          (case TusUploadFile_info file w1 of
             None \<Rightarrow> (Inl (HTTPException 404), w1)
           | Some info \<Rightarrow>
               (if TusUploadFile_exists file w1 then
                  (Inr (Response 204
                     [(''Tus-Extension'', tus_extension options),
                      (''Tus-Resumable'', tus_version options),
                      (''Tus-Version'', tus_version options),
                      (''Content-Length'', str_int 0)]), w1)
                else (Inl (HTTPException 404), w1))))"

text \<open>
  \<^verbatim>\<open>get_request_headers(request)\<close> (request.py, lines 67 to 78). The signature has the
  one parameter \<^verbatim>\<open>request\<close>: \<open>uuid_kw\<close> is the keyword argument \<^verbatim>\<open>uuid\<close> when the
  call passes one, which the signature does not take. In the body the f-string reads
  \<^verbatim>\<open>options.prefix\<close> and \<^verbatim>\<open>uuid\<close>; neither name is a parameter, a local or a global of
  request.py.
\<close>

definition get_request_headers :: "request \<Rightarrow> string option \<Rightarrow> error + string" where
  "get_request_headers req uuid_kw =
     (case uuid_kw of
        Some u \<Rightarrow> Inl TypeError
      | None \<Rightarrow>
          (let proto = (case headers_get req ''X-Forwarded-Proto'' of
                          Some v \<Rightarrow> v
                        | None \<Rightarrow> ''http'');
               host = (case headers_get req ''X-Forwarded-Host'' of
                         Some v \<Rightarrow> Some v
                       | None \<Rightarrow> headers_get req ''host'')
           in Inl NameError))"

text \<open>
  The decoding of \<^verbatim>\<open>Upload-Metadata\<close> in the creation handler: \<^verbatim>\<open>split(",")\<close>,
  \<^verbatim>\<open>rsplit(" ", 1)\<close> unpacked into two names, \<^verbatim>\<open>strip()\<close> and base64.
\<close>

fun split_on :: "char \<Rightarrow> string \<Rightarrow> string list" where
  "split_on c [] = [[]]"
| "split_on c (x # xs) =
     (if x = c then [] # split_on c xs
      else (case split_on c xs of y # ys \<Rightarrow> (x # y) # ys | [] \<Rightarrow> [[x]]))"

definition rsplit1 :: "char \<Rightarrow> string \<Rightarrow> string list" where
  "rsplit1 c s =
     (if c \<in> set s
      then [rev (tl (dropWhile (\<lambda>x. x \<noteq> c) (rev s))), rev (takeWhile (\<lambda>x. x \<noteq> c) (rev s))]
      else [s])"

definition is_space :: "char \<Rightarrow> bool" where
  "is_space c =
     (c \<in> set [CHR 0x09, CHR 0x0A, CHR 0x0B, CHR 0x0C, CHR 0x0D, CHR 0x1C, CHR 0x1D,
                CHR 0x1E, CHR 0x1F, CHR 0x20, CHR 0x85, CHR 0xA0])"

definition strip :: "string \<Rightarrow> string" where
  "strip s = rev (dropWhile is_space (rev (dropWhile is_space s)))"

fun metadata_loop ::
  "env \<Rightarrow> string list \<Rightarrow> (string \<times> string) list \<Rightarrow> error + (string \<times> string) list" where
  "metadata_loop env [] md = Inr md"
| "metadata_loop env (kv # kvs) md =
     (case rsplit1 CHR '' '' kv of
        [key, v] \<Rightarrow>
          (case b64decode env (strip v) of
             None \<Rightarrow> Inl ValueError
           | Some decoded_value \<Rightarrow>
               metadata_loop env kvs (AList.update (strip key) decoded_value md))
      | _ \<Rightarrow> Inl ValueError)"

text \<open>
  \<^verbatim>\<open>extension_creation_route\<close>, the body of the handler (router.py, lines 219 to 260).
  The handler does not read the body of the request: \<^verbatim>\<open>request\<close> is passed to
  \<^verbatim>\<open>get_request_headers\<close> only. \<^verbatim>\<open>TusUploadParams(size=upload_length, ...)\<close> validates
  \<^verbatim>\<open>size: int\<close>, so an absent \<^verbatim>\<open>Upload-Length\<close> raises a validation error. The file is
  built by \<^verbatim>\<open>TusUploadFile(options=options, params=params)\<close>, which passes no \<^verbatim>\<open>uid\<close>.
\<close>

definition extension_creation_route ::
  "TusRouterOptions \<Rightarrow> env \<Rightarrow> request \<Rightarrow> string option \<Rightarrow> int option \<Rightarrow> int option \<Rightarrow>
   callback \<Rightarrow> world \<Rightarrow> (error + reply) \<times> world" where
  "extension_creation_route options env req upload_metadata upload_length upload_defer_length
     on_complete w =
     (if upload_defer_length \<noteq> None \<and> upload_defer_length \<noteq> Some 1
      then (Inl (HTTPException 400), w)
      else
        (case (case upload_metadata of
                 None \<Rightarrow> Inr []
               | Some m \<Rightarrow> if m = [] then Inr [] else metadata_loop env (split_on CHR '','' m) []) of
           Inl e \<Rightarrow> (Inl e, w)
         | Inr md \<Rightarrow>
             (case upload_length of
                None \<Rightarrow> (Inl ValidationError, w)
              | Some n \<Rightarrow>
                  (let params =
                         \<lparr> metadata = md, size_bytes = n, offset = 0, upload_part = 0,
                           created_at = now env,
                           defer_length = (upload_defer_length \<noteq> None),
                           upload_chunk_size = 0,
                           expires = Some (now env + days_to_keep options * 86400) \<rparr>
                   in
                     (case TusUploadFile_init None (Some options) (Some params) env w of
                        (Inl e, w1) \<Rightarrow> (Inl e, w1)
                      | (Inr file, w1) \<Rightarrow>
                          (case get_request_headers req (Some (uid file)) of
                             Inl e \<Rightarrow> (Inl e, w1)
                           | Inr location \<Rightarrow>
                               (let response = Response 201
                                      [(''Location'', location),
                                       (''Tus-Resumable'', tus_version options),
                                       (''Content-Length'', str_int 0)]
                                in
                                  (case TusUploadFile_info file w1 of
                                     None \<Rightarrow> (Inr response, w1)
                                   | Some p \<Rightarrow>
                                       (if size_bytes p = 0 then
                                          (Inr response,
                                           call_hook on_complete
                                             (path_join (files_dir options) (uid file))
                                             (metadata p) w1)
                                        else (Inr response, w1))))))))))"

text \<open>
  \<^verbatim>\<open>extension_termination_route\<close> (router.py, lines 266 to 279): the handler calls
  \<^verbatim>\<open>file.delete()\<close>, with no argument.
\<close>

definition extension_termination_route ::
  "TusRouterOptions \<Rightarrow> env \<Rightarrow> string \<Rightarrow> world \<Rightarrow> (error + reply) \<times> world" where
  "extension_termination_route options env uuid w =
     (case TusUploadFile_init (Some (Some uuid)) (Some options) None env w of
        (Inl e, w1) \<Rightarrow> (Inl e, w1)
      | (Inr file, w1) \<Rightarrow>
          (if TusUploadFile_exists file w1 then
             (case TusUploadFile_delete file None w1 of
                (Inl e, w2) \<Rightarrow> (Inl e, w2)
              | (Inr u, w2) \<Rightarrow>
                  (Inr (Response 204 [(''Tus-Resumable'', tus_version options)]), w2))
           else (Inl (HTTPException 404), w1)))"

text \<open>The remaining routes with their dependencies, in the order of the signatures.\<close>

definition OPTIONS_route :: "TusRouterOptions \<Rightarrow> world \<Rightarrow> (error + reply) \<times> world" where
  "OPTIONS_route options w =
     (case Depends_auth options w of
        (Inl e, w1) \<Rightarrow> (Inl e, w1)
      | (Inr u, w1) \<Rightarrow> core_options_route options w1)"

definition OPTIONS_upload_route ::
  "TusRouterOptions \<Rightarrow> env \<Rightarrow> string \<Rightarrow> world \<Rightarrow> (error + reply) \<times> world" where
  "OPTIONS_upload_route options env uuid w =
     (case Depends_auth options w of
        (Inl e, w1) \<Rightarrow> (Inl e, w1)
      | (Inr u, w1) \<Rightarrow> options_upload_chunk options env uuid w1)"

definition POST_route ::
  "TusRouterOptions \<Rightarrow> env \<Rightarrow> request \<Rightarrow> string option \<Rightarrow> int option \<Rightarrow> int option \<Rightarrow>
   world \<Rightarrow> (error + reply) \<times> world" where
  "POST_route options env req upload_metadata upload_length upload_defer_length w =
     (case Depends_auth options w of
        (Inl e, w1) \<Rightarrow> (Inl e, w1)
      | (Inr u, w1) \<Rightarrow>
          extension_creation_route options env req upload_metadata upload_length
            upload_defer_length (upload_complete_dep options) w1)"

definition DELETE_route ::
  "TusRouterOptions \<Rightarrow> env \<Rightarrow> string \<Rightarrow> world \<Rightarrow> (error + reply) \<times> world" where
  "DELETE_route options env uuid w =
     (case Depends_auth options w of
        (Inl e, w1) \<Rightarrow> (Inl e, w1)
      | (Inr u, w1) \<Rightarrow> extension_termination_route options env uuid w1)"

section \<open>file.py: the expiration sweeper\<close>

text \<open>
  In file.py the name \<^verbatim>\<open>datetime\<close> is the module (\<^verbatim>\<open>import datetime\<close>), which has no
  attribute \<^verbatim>\<open>fromisoformat\<close>.
\<close>

definition datetime_fromisoformat :: "int \<Rightarrow> error + int" where
  "datetime_fromisoformat t = Inl AttributeError"

text \<open>
  \<^verbatim>\<open>gc_files\<close> (file.py, lines 81 to 91): the loop over the names of length 32. The
  file of a name is built by \<^verbatim>\<open>TusUploadFile(uid=uid)\<close>, which passes no \<^verbatim>\<open>options\<close>, and
  deleted by \<^verbatim>\<open>file.delete()\<close>, which passes no \<^verbatim>\<open>uid\<close>.
\<close>

fun gc_loop :: "env \<Rightarrow> string list \<Rightarrow> world \<Rightarrow> (error + unit) \<times> world" where
  "gc_loop env [] w = (Inr (), w)"
| "gc_loop env (u # uids) w =
     (case TusUploadFile_init (Some (Some u)) None None env w of
        (Inl e, w1) \<Rightarrow> (Inl e, w1)
      | (Inr file, w1) \<Rightarrow>
          (case TusUploadFile_info file w1 of
             None \<Rightarrow> (Inl AttributeError, w1)
           | Some params \<Rightarrow>
               (case expires params of
                  None \<Rightarrow> gc_loop env uids w1
                | Some t \<Rightarrow>
                    (case datetime_fromisoformat t of
                       Inl e \<Rightarrow> (Inl e, w1)
                     | Inr t' \<Rightarrow>
                         (if t' < now env then
                            (case TusUploadFile_delete file None w1 of
                               (Inl e, w2) \<Rightarrow> (Inl e, w2)
                             | (Inr x, w2) \<Rightarrow> gc_loop env uids w2)
                          else gc_loop env uids w1)))))"

definition gc_files :: "TusRouterOptions \<Rightarrow> env \<Rightarrow> world \<Rightarrow> (error + unit) \<times> world" where
  "gc_files options env w = gc_loop env (filter (\<lambda>f. length f = 32) (listdir w)) w"

text \<open>The status line a client sees.\<close>

definition http_status :: "error + reply \<Rightarrow> nat" where
  "http_status r =
     (case r of
        Inl e \<Rightarrow> (case e of HTTPException n \<Rightarrow> n | _ \<Rightarrow> 500)
      | Inr rep \<Rightarrow> (case rep of Response n hs \<Rightarrow> n | FileResponse p m f hs \<Rightarrow> 200))"

section \<open>Example data\<close>

text \<open>
  The router of examples/nginx/server.py, an upload id, and the record of the upload
  \<^verbatim>\<open>hello.txt\<close> of 11 bytes created with the keys \<^verbatim>\<open>filename\<close> and \<^verbatim>\<open>filetype\<close>, of
  which 5 bytes have arrived.
\<close>

definition example_options :: TusRouterOptions where
  "example_options =
     create_tus_router ''files'' ''/app/uploads'' 128849018880 None 5
       (Some (Callback ''on_upload_complete'')) None None"

definition example_id :: string where
  "example_id = ''0123456789abcdef0123456789abcdef''"

definition example_record :: TusUploadParams where
  "example_record =
     \<lparr> metadata = [(''filename'', ''hello.txt''), (''filetype'', ''text/plain'')],
       size_bytes = 11, offset = 5, upload_part = 1, created_at = 0,
       defer_length = False, upload_chunk_size = 5, expires = Some 432000 \<rparr>"

definition example_world :: world where
  "example_world =
     \<lparr> payloads = [(example_id, ''hello'')],
       sidecars = [(example_id, example_record)],
       hook_calls = [] \<rparr>"

text \<open>The same upload once all 11 bytes have been appended.\<close>

definition example_done_world :: world where
  "example_done_world =
     \<lparr> payloads = [(example_id, ''hello world'')],
       sidecars =
         [(example_id,
           example_record\<lparr>offset := 11, upload_part := 2, upload_chunk_size := 6\<rparr>)],
       hook_calls = [] \<rparr>"

text \<open>
  An upload of deferred length whose payload holds 5 bytes, an upload named by the key
  \<^verbatim>\<open>name\<close>, an empty directory, a fresh upload of one byte under a router with
  \<^verbatim>\<open>max_size = 1\<close>, and a router whose guard rejects every request with status 401.
\<close>

definition example_deferred_world :: world where
  "example_deferred_world =
     \<lparr> payloads = [(example_id, ''hello'')],
       sidecars = [(example_id, example_record\<lparr>size_bytes := 0, defer_length := True\<rparr>)],
       hook_calls = [] \<rparr>"

definition example_named_world :: world where
  "example_named_world =
     \<lparr> payloads = [(example_id, ''hello'')],
       sidecars = [(example_id, example_record\<lparr>metadata := [(''name'', ''hello.txt'')]\<rparr>)],
       hook_calls = [] \<rparr>"

definition example_empty_world :: world where
  "example_empty_world = \<lparr> payloads = [], sidecars = [], hook_calls = [] \<rparr>"

definition example_small_options :: TusRouterOptions where
  "example_small_options = example_options\<lparr>max_size := 1\<rparr>"

definition example_fresh_world :: world where
  "example_fresh_world =
     \<lparr> payloads = [(example_id, [])],
       sidecars =
         [(example_id,
           example_record\<lparr>size_bytes := 1, offset := 0, upload_part := 0,
             upload_chunk_size := 0\<rparr>)],
       hook_calls = [] \<rparr>"

definition example_guarded_options :: TusRouterOptions where
  "example_guarded_options = example_options\<lparr>auth := Some (HTTPException 401)\<rparr>"

section \<open>Properties\<close>

subsection \<open>Download of an upload without the metadata key name\<close>

lemma TusUploadFile_init_given:
  "uuid \<noteq> [] \<Longrightarrow>
   TusUploadFile_init (Some (Some uuid)) (Some options) None env w =
     (Inr \<lparr>uid = uuid, file_options = options\<rparr>, w)"
  by (simp add: TusUploadFile_init_def TusUploadInfo_init_def)

text \<open>
  Claim C10. A GET on an existing upload (payload and sidecar present) whose metadata
  holds no key \<^verbatim>\<open>name\<close> leaves the handler with \<open>KeyError\<close>: neither 400 nor 404, and
  the store is as before.
\<close>

theorem get_without_name_raises_KeyError:
  assumes "uuid \<noteq> []"
    and "map_of (payloads w) uuid = Some b"
    and "map_of (sidecars w) uuid = Some info"
    and "map_of (metadata info) ''name'' = None"
  shows "GET_route options env uuid w = (Inl KeyError, w)"
  using assms
  by (simp add: GET_route_def extension_get_upload_def TusUploadFile_init_given
      TusUploadFile_info_def TusUploadInfo_params_def TusUploadFile_exists_def)

theorem get_without_name_witness:
  "\<forall>env. example_id \<noteq> [] \<and>
     map_of (payloads example_world) example_id = Some ''hello'' \<and>
     map_of (sidecars example_world) example_id = Some example_record \<and>
     map_of (metadata example_record) ''name'' = None \<and>
     GET_route example_options env example_id example_world = (Inl KeyError, example_world) \<and>
     http_status (fst (GET_route example_options env example_id example_world)) = 500 \<and>
     http_status (fst (HEAD_route example_options env example_id example_world)) = 200"
proof (intro allI)
  fix env
  have a: "example_id \<noteq> []"
    by (simp add: example_id_def)
  have b: "map_of (payloads example_world) example_id = Some ''hello''"
    by (simp add: example_world_def)
  have c: "map_of (sidecars example_world) example_id = Some example_record"
    by (simp add: example_world_def)
  have d: "map_of (metadata example_record) ''name'' = None"
    by (simp add: example_record_def)
  have g: "GET_route example_options env example_id example_world = (Inl KeyError, example_world)"
    by (rule get_without_name_raises_KeyError [OF a b c d])
  have h: "http_status (fst (HEAD_route example_options env example_id example_world)) = 200"
    using a b c
    by (simp add: HEAD_route_def Depends_auth_def core_head_route_def
        TusUploadFile_init_given TusUploadFile_exists_def TusUploadFile_info_def
        TusUploadInfo_params_def example_options_def create_tus_router_def
        example_record_def http_status_def)
  show "example_id \<noteq> [] \<and>
     map_of (payloads example_world) example_id = Some ''hello'' \<and>
     map_of (sidecars example_world) example_id = Some example_record \<and>
     map_of (metadata example_record) ''name'' = None \<and>
     GET_route example_options env example_id example_world = (Inl KeyError, example_world) \<and>
     http_status (fst (GET_route example_options env example_id example_world)) = 500 \<and>
     http_status (fst (HEAD_route example_options env example_id example_world)) = 200"
    using a b c d g h by (simp add: http_status_def)
qed

subsection \<open>Evaluation of the handlers\<close>

lemmas file_defs =
  TusUploadFile_init_def TusUploadInfo_init_def TusUploadFile_info_def TusUploadInfo_params_def
  TusUploadFile_exists_def TusUploadFile_set_info_def TusUploadInfo_set_params_def
  TusUploadFile_len_def TusUploadFile_delete_def Depends_auth_def

lemmas example_defs =
  example_options_def create_tus_router_def example_id_def example_record_def
  example_world_def example_done_world_def example_deferred_world_def example_named_world_def
  example_empty_world_def example_small_options_def example_fresh_world_def
  example_guarded_options_def

subsection \<open>What the handlers leave untouched\<close>

lemma TusUploadFile_init_call:
  "TusUploadFile_init (Some (Some uuid)) (Some options) None env w =
     (Inr \<lparr>uid = (if uuid = [] then uuid4_hex env else uuid), file_options = options\<rparr>, w)"
  by (simp add: TusUploadFile_init_def TusUploadInfo_init_def)








lemma DELETE_route_world: "snd (DELETE_route options env uuid w) = w"
  by (simp add: DELETE_route_def extension_termination_route_def Depends_auth_def
      TusUploadFile_init_call TusUploadFile_delete_def split: option.splits)

lemma gc_loop_world: "snd (gc_loop env uids w) = w"
  by (cases uids) (simp_all add: TusUploadFile_init_def)

lemma gc_files_world: "snd (gc_files options env w) = w"
  by (simp add: gc_files_def gc_loop_world)

lemma creation_route_world:
  "snd (extension_creation_route options env req um ul udl oc w) = w \<and>
   (\<exists>e. fst (extension_creation_route options env req um ul udl oc w) = Inl e)"
  by (simp add: extension_creation_route_def TusUploadFile_init_def
      split: option.splits sum.splits)

lemma POST_route_world:
  "snd (POST_route options env req um ul udl w) = w \<and>
   (\<exists>e. fst (POST_route options env req um ul udl w) = Inl e)"
  by (simp add: POST_route_def Depends_auth_def creation_route_world split: option.splits)

lemma GET_route_ignores_auth:
  "GET_route (options\<lparr>auth := g\<rparr>) env uuid w = GET_route options env uuid w"
  by (simp add: GET_route_def extension_get_upload_def TusUploadFile_init_call
      TusUploadFile_info_def TusUploadFile_exists_def split: option.splits)

subsection \<open>The offset check of PATCH\<close>




subsection \<open>Deferred length\<close>



subsection \<open>The completion hook on PATCH\<close>


subsection \<open>The size limit while streaming\<close>


subsection \<open>Creation\<close>

text \<open>
  Claim C4. No POST changes the store, whatever its body: the handler does not read the
  body, and it ends in an exception. A POST with \<^verbatim>\<open>Upload-Length: 5\<close> and the body
  \<^verbatim>\<open>hello\<close> on an empty directory ends in \<open>TypeError\<close>, where the handler builds the file
  without a \<^verbatim>\<open>uid\<close>: no payload is created, no byte is appended, no hook is called.
\<close>

theorem post_with_body_appends_nothing:
  "snd (POST_route options env req upload_metadata upload_length upload_defer_length w) = w \<and>
   POST_route example_options env
     \<lparr>headers = [(''host'', ''example.com'')], stream = [''hello'', []]\<rparr> None (Some 5) None
     example_empty_world = (Inl TypeError, example_empty_world)"
proof -
  have "POST_route example_options env
     \<lparr>headers = [(''host'', ''example.com'')], stream = [''hello'', []]\<rparr> None (Some 5) None
     example_empty_world = (Inl TypeError, example_empty_world)"
    by (simp add: POST_route_def extension_creation_route_def file_defs example_defs)
  then show ?thesis
    using POST_route_world [of options env req upload_metadata upload_length
        upload_defer_length w]
    by simp
qed

text \<open>
  Claim C5. No POST is answered with a reply, so none carries a \<^verbatim>\<open>Location\<close>: every POST
  ends in an exception. The function that composes the location fails as the handler
  calls it (with an argument \<^verbatim>\<open>uuid\<close> its signature does not take), and fails with
  \<open>NameError\<close> when called with the request alone. A POST with \<^verbatim>\<open>Upload-Length: 11\<close> and the
  headers \<^verbatim>\<open>Host\<close> and \<^verbatim>\<open>X-Forwarded-Proto\<close> ends in \<open>TypeError\<close>.
\<close>

theorem post_location_not_built:
  "(\<exists>e. fst (POST_route options env req upload_metadata upload_length upload_defer_length w)
      = Inl e) \<and>
   get_request_headers req (Some u) = Inl TypeError \<and>
   get_request_headers req None = Inl NameError \<and>
   POST_route example_options env
     \<lparr>headers = [(''host'', ''example.com''), (''x-forwarded-proto'', ''https'')],
       stream = [[]]\<rparr>
     None (Some 11) None example_empty_world = (Inl TypeError, example_empty_world)"
proof -
  have "POST_route example_options env
     \<lparr>headers = [(''host'', ''example.com''), (''x-forwarded-proto'', ''https'')],
       stream = [[]]\<rparr>
     None (Some 11) None example_empty_world = (Inl TypeError, example_empty_world)"
    by (simp add: POST_route_def extension_creation_route_def file_defs example_defs)
  moreover have "get_request_headers req (Some u) = Inl TypeError"
    and "get_request_headers req None = Inl NameError"
    by (simp_all add: get_request_headers_def)
  ultimately show ?thesis
    using POST_route_world [of options env req upload_metadata upload_length
        upload_defer_length w]
    by simp
qed

subsection \<open>Termination\<close>

text \<open>
  Claim C6. No DELETE removes a file: the store after the route is the store before it.
  A DELETE on the existing upload ends in \<open>TypeError\<close> at \<^verbatim>\<open>file.delete()\<close>, and a HEAD
  that follows is answered with 200. A DELETE on an id without payload is answered with
  404.
\<close>

theorem delete_removes_nothing:
  "snd (DELETE_route options env uuid w) = w \<and>
   DELETE_route example_options env example_id example_world = (Inl TypeError, example_world) \<and>
   http_status (fst (HEAD_route example_options env example_id
     (snd (DELETE_route example_options env example_id example_world)))) = 200 \<and>
   DELETE_route example_options env example_id example_empty_world
     = (Inl (HTTPException 404), example_empty_world)"
proof -
  have "DELETE_route example_options env example_id example_world
      = (Inl TypeError, example_world)"
    and "http_status (fst (HEAD_route example_options env example_id
      (snd (DELETE_route example_options env example_id example_world)))) = 200"
    and "DELETE_route example_options env example_id example_empty_world
      = (Inl (HTTPException 404), example_empty_world)"
    by (simp_all add: DELETE_route_def extension_termination_route_def HEAD_route_def
        core_head_route_def http_status_def file_defs example_defs)
  then show ?thesis
    using DELETE_route_world [of options env uuid w] by simp
qed

subsection \<open>The guard\<close>

text \<open>
  Claim C7. The answer to a GET does not depend on the guard: the download route
  declares no dependency on it. Under a guard that rejects every request with 401, HEAD
  is answered with the guard's error and GET with the file.
\<close>

theorem get_runs_without_guard:
  "GET_route (options\<lparr>auth := Some e\<rparr>) env uuid w = GET_route (options\<lparr>auth := None\<rparr>) env uuid w \<and>
   GET_route example_guarded_options env example_id example_named_world =
     (Inr (FileResponse ''/app/uploads/0123456789abcdef0123456789abcdef''
        ''application/octet-stream'' ''hello.txt''
        [(''Content-Length'', ''5''), (''Tus-Resumable'', ''1.0.0'')]), example_named_world) \<and>
   HEAD_route example_guarded_options env example_id example_named_world =
     (Inl (HTTPException 401), example_named_world)"
proof -
  have "GET_route example_guarded_options env example_id example_named_world =
     (Inr (FileResponse ''/app/uploads/0123456789abcdef0123456789abcdef''
        ''application/octet-stream'' ''hello.txt''
        [(''Content-Length'', ''5''), (''Tus-Resumable'', ''1.0.0'')]), example_named_world)"
    and "HEAD_route example_guarded_options env example_id example_named_world =
     (Inl (HTTPException 401), example_named_world)"
    by (simp_all add: GET_route_def extension_get_upload_def HEAD_route_def path_join_def
        str_int_def str_nat.simps file_defs example_defs)
  then show ?thesis
    by (simp add: GET_route_ignores_auth)
qed

subsection \<open>The expiration sweeper\<close>

text \<open>
  Claim C8. The sweeper deletes nothing: the store after it is the store before it. On a
  directory that holds one upload whose \<^verbatim>\<open>expires\<close> (432000) is earlier than the clock
  (500000), it ends in \<open>TypeError\<close> at the first name of length 32, where it builds the
  file without \<^verbatim>\<open>options\<close>; the expired upload is still there.
\<close>

theorem gc_files_deletes_nothing:
  "snd (gc_files options env w) = w \<and>
   length example_id = 32 \<and>
   gc_files example_options (env\<lparr>now := 500000\<rparr>) example_world = (Inl TypeError, example_world)"
proof -
  have "length example_id = 32"
    and "gc_files example_options (env\<lparr>now := 500000\<rparr>) example_world
      = (Inl TypeError, example_world)"
    by (simp_all add: gc_files_def listdir_def file_defs example_defs)
  then show ?thesis
    using gc_files_world [of options env w] by simp
qed

end
